theory Spec2Isabelle
  imports Main
begin

section \<open>Shared vocabulary\<close>

text \<open>
  The clients talk to a REST backend that is not part of the repository. Every awaited
  call is therefore given its outcome from outside: the promise either resolves with a
  value or rejects, the rejection carrying the \<open>error.response?.data?.detail\<close> string
  when the server sent one.
\<close>

datatype 'a response = Resolved 'a | Rejected "string option"

text \<open>
  JavaScript truthiness of a \<open>string | null | undefined\<close> value: absent and the empty
  string are falsy.
\<close>

fun truthy :: "string option \<Rightarrow> bool" where
  "truthy None = False"
| "truthy (Some v) = (v \<noteq> [])"

text \<open>\<open>a || b\<close> on such a value.\<close>

fun or_else :: "string option \<Rightarrow> string \<Rightarrow> string" where
  "or_else None d = d"
| "or_else (Some v) d = (if v = [] then d else v)"

text \<open>
  Messages handed to the \<open>toast\<close> notifier. The only template string the claims depend
  on is \<open>Only ${stock} items available\<close>, kept as a constructor with its number.
\<close>

datatype message = Text string | OnlyItemsAvailable int

datatype toast = ToastError message | ToastSuccess message | ToastInfo message

section \<open>Cart context (website-new/client/context/CartContext.tsx)\<close>

text \<open>
  The interfaces \<open>Product\<close> and \<open>CartItem\<close>. \<open>price\<close>, \<open>stock\<close> and \<open>quantity\<close> are
  JavaScript numbers; the pages pass whole numbers, and they are integers here. The \<open>id\<close>
  of an item is the server's and is absent on a guest's items.
\<close>

record Product =
  id_product :: string
  name :: string
  price :: int
  images :: "string list"
  slug :: string
  stock :: int
  is_active :: bool

record CartItem =
  id_item :: "string option"
  product_id :: string
  quantity :: int
  product :: Product

text \<open>
  The value stored under the local-storage key \<open>guest_cart\<close>. The provider only ever
  writes \<open>JSON.stringify(items)\<close> there and reads it back with \<open>JSON.parse\<close>, so a
  stored string is represented by the list it parses to; \<open>Unparsable\<close> stands for a
  non-empty string on which \<open>JSON.parse\<close> throws.
\<close>

datatype stored = Json "CartItem list" | Unparsable

text \<open>What the payment widget hands to its success callback.\<close>

record RazorpayResponse =
  razorpay_order_id :: string
  razorpay_payment_id :: string
  razorpay_signature :: string

text \<open>The requests of \<open>apiService\<close> that the cart, the checkout and the account page issue.\<close>

datatype api_call =
    MergeCart "(string \<times> int) list"
  | GetCart
  | AddToCart string int
  | UpdateCartItem string int
  | RemoveFromCart string
  | ClearCart
  | CreateOrder string
  | CreatePayment string
  | VerifyPayment RazorpayResponse

text \<open>
  The outcomes of the calls one cart operation may await. Each operation awaits every
  endpoint at most once, so one outcome per endpoint is enough.
\<close>

record server =
  r_mergeCart :: "unit response"
  r_getCart :: "CartItem list option response"
  r_addToCart :: "unit response"
  r_updateCartItem :: "unit response"
  r_removeFromCart :: "unit response"
  r_clearCart :: "unit response"

text \<open>
  The provider's state: the \<open>items\<close> and \<open>loading\<close> hooks, \<open>isLoggedIn\<close> as read from
  the auth context, the \<open>guest_cart\<close> key of local storage, and the observable
  outputs in the order they happen: the toasts shown, the requests sent and the
  \<open>console.error\<close> lines.
\<close>

record CartState =
  items :: "CartItem list"
  loading :: bool
  isLoggedIn :: bool
  guest_cart :: "stored option"
  toasts :: "toast list"
  api_calls :: "api_call list"
  console :: "string list"

definition notify :: "toast \<Rightarrow> 'a CartState_scheme \<Rightarrow> 'a CartState_scheme" where
  "notify t s = s\<lparr>toasts := toasts s @ [t]\<rparr>"

definition call :: "api_call \<Rightarrow> 'a CartState_scheme \<Rightarrow> 'a CartState_scheme" where
  "call c s = s\<lparr>api_calls := api_calls s @ [c]\<rparr>"

definition console_error :: "string \<Rightarrow> 'a CartState_scheme \<Rightarrow> 'a CartState_scheme" where
  "console_error l s = s\<lparr>console := console s @ [l]\<rparr>"

text \<open>\<open>Array.prototype.findIndex\<close>, with \<open>None\<close> for \<open>-1\<close>.\<close>

fun findIndex :: "('a \<Rightarrow> bool) \<Rightarrow> 'a list \<Rightarrow> nat option" where
  "findIndex p [] = None"
| "findIndex p (x # xs) =
     (if p x then Some 0 else map_option Suc (findIndex p xs))"

definition mergePayload :: "CartItem list \<Rightarrow> (string \<times> int) list" where
  "mergePayload guestItems = map (\<lambda>item. (product_id item, quantity item)) guestItems"

text \<open>
  The inner \<open>try / catch / finally\<close> of \<open>refreshCart\<close>: the merge of a persisted guest
  cart. A rejected merge is only logged to the console; the key is removed in \<open>finally\<close>.
\<close>

definition mergeGuestCart :: "server \<Rightarrow> 'a CartState_scheme \<Rightarrow> 'a CartState_scheme" where
  "mergeGuestCart srv s =
     (case guest_cart s of
        None \<Rightarrow> s
      | Some Unparsable \<Rightarrow> (console_error ''Failed to merge cart:'' s)\<lparr>guest_cart := None\<rparr>
      | Some (Json guestItems) \<Rightarrow>
          (if length guestItems > 0 then
             (case r_mergeCart srv of
                Resolved _ \<Rightarrow> call (MergeCart (mergePayload guestItems)) s
              | Rejected _ \<Rightarrow>
                  console_error ''Failed to merge cart:''
                    (call (MergeCart (mergePayload guestItems)) s))
           else s)
          \<lparr>guest_cart := None\<rparr>)"

definition refreshCart :: "server \<Rightarrow> 'a CartState_scheme \<Rightarrow> 'a CartState_scheme" where
  "refreshCart srv s0 =
     (let s = s0\<lparr>loading := True\<rparr> in
      (if isLoggedIn s then
         (let s1 = call GetCart (mergeGuestCart srv s) in
          case r_getCart srv of
            Resolved d \<Rightarrow> s1\<lparr>items := (case d of None \<Rightarrow> [] | Some cartItems \<Rightarrow> cartItems)\<rparr>
          | Rejected _ \<Rightarrow> console_error ''Failed to load cart:'' s1)
       else
         (case guest_cart s of
            Some (Json saved) \<Rightarrow> s\<lparr>items := saved\<rparr>
          | Some Unparsable \<Rightarrow> s\<lparr>items := [], guest_cart := None\<rparr>
          | None \<Rightarrow> s\<lparr>items := []\<rparr>))
      \<lparr>loading := False\<rparr>)"

definition addToCart ::
  "server \<Rightarrow> Product \<Rightarrow> int \<Rightarrow> 'a CartState_scheme \<Rightarrow> 'a CartState_scheme" where
  "addToCart srv p qty s =
     (if \<not> is_active p \<or> stock p < qty then
        notify (ToastError (Text ''Product not available or out of stock'')) s
      else if isLoggedIn s then
        (case r_addToCart srv of
           Resolved _ \<Rightarrow>
             notify (ToastSuccess (Text ''Added to cart''))
               (refreshCart srv (call (AddToCart (id_product p) qty) s))
         | Rejected _ \<Rightarrow>
             notify (ToastError (Text ''Failed to add to cart''))
               (console_error ''Add to cart error:'' (call (AddToCart (id_product p) qty) s)))
      else
        (let currentItems = items s in
         case findIndex (\<lambda>i. product_id i = id_product p) currentItems of
           Some existingIndex \<Rightarrow>
             (let newQty = quantity (currentItems ! existingIndex) + qty in
              if newQty > stock p then
                notify (ToastError (OnlyItemsAvailable (stock p))) s
              else
                (let updated = currentItems
                       [existingIndex := (currentItems ! existingIndex)\<lparr>quantity := min newQty 10\<rparr>]
                 in notify (ToastSuccess (Text ''Added to cart''))
                      (s\<lparr>items := updated, guest_cart := Some (Json updated)\<rparr>)))
         | None \<Rightarrow>
             (let updated = currentItems @
                    [\<lparr>id_item = None, product_id = id_product p,
                      quantity = min qty 10, product = p\<rparr>]
              in notify (ToastSuccess (Text ''Added to cart''))
                   (s\<lparr>items := updated, guest_cart := Some (Json updated)\<rparr>))))"

definition updateQuantity ::
  "server \<Rightarrow> string \<Rightarrow> int \<Rightarrow> 'a CartState_scheme \<Rightarrow> 'a CartState_scheme" where
  "updateQuantity srv productId qty s =
     (if qty < 1 then s
      else if isLoggedIn s then
        (case find (\<lambda>i. product_id i = productId) (items s) of
           None \<Rightarrow> s
         | Some item \<Rightarrow>
             (if truthy (id_item item) then
                (case r_updateCartItem srv of
                   Resolved _ \<Rightarrow>
                     refreshCart srv (call (UpdateCartItem (the (id_item item)) qty) s)
                 | Rejected _ \<Rightarrow>
                     notify (ToastError (Text ''Failed to update quantity''))
                       (console_error ''Update quantity error:''
                          (call (UpdateCartItem (the (id_item item)) qty) s)))
              else s))
      else
        (let currentItems = items s in
         case findIndex (\<lambda>i. product_id i = productId) currentItems of
           None \<Rightarrow> s
         | Some index \<Rightarrow>
             (if stock (product (currentItems ! index)) < qty then
                notify (ToastError (OnlyItemsAvailable (stock (product (currentItems ! index))))) s
              else
                (let updated = currentItems[index := (currentItems ! index)\<lparr>quantity := qty\<rparr>]
                 in s\<lparr>items := updated, guest_cart := Some (Json updated)\<rparr>))))"

definition removeFromCart ::
  "server \<Rightarrow> string \<Rightarrow> 'a CartState_scheme \<Rightarrow> 'a CartState_scheme" where
  "removeFromCart srv productId s =
     (if isLoggedIn s then
        (case find (\<lambda>i. product_id i = productId) (items s) of
           None \<Rightarrow> s
         | Some item \<Rightarrow>
             (if truthy (id_item item) then
                (case r_removeFromCart srv of
                   Resolved _ \<Rightarrow>
                     notify (ToastSuccess (Text ''Removed from cart''))
                       (refreshCart srv (call (RemoveFromCart (the (id_item item))) s))
                 | Rejected _ \<Rightarrow>
                     notify (ToastError (Text ''Failed to remove item''))
                       (console_error ''Remove error:''
                          (call (RemoveFromCart (the (id_item item))) s)))
              else s))
      else
        (let newItems = filter (\<lambda>i. product_id i \<noteq> productId) (items s)
         in notify (ToastSuccess (Text ''Removed from cart''))
              (s\<lparr>items := newItems, guest_cart := Some (Json newItems)\<rparr>)))"

text \<open>The \<open>finally\<close> block of \<open>clearCart\<close>.\<close>

definition clearCart_finally :: "'a CartState_scheme \<Rightarrow> 'a CartState_scheme" where
  "clearCart_finally s = s\<lparr>items := [], guest_cart := None\<rparr>"

definition clearCart :: "server \<Rightarrow> 'a CartState_scheme \<Rightarrow> 'a CartState_scheme" where
  "clearCart srv s =
     clearCart_finally
       (if isLoggedIn s then
          (case r_clearCart srv of
             Resolved _ \<Rightarrow> call ClearCart s
           | Rejected _ \<Rightarrow> console_error ''Clear cart error:'' (call ClearCart s))
        else s)"


subsection \<open>Sequences of guest operations\<close>

datatype guest_op = Add Product int | Update string int | Remove string

fun apply_op :: "server \<Rightarrow> guest_op \<Rightarrow> 'a CartState_scheme \<Rightarrow> 'a CartState_scheme" where
  "apply_op srv (Add p qty) s = addToCart srv p qty s"
| "apply_op srv (Update productId qty) s = updateQuantity srv productId qty s"
| "apply_op srv (Remove productId) s = removeFromCart srv productId s"

fun run_ops :: "server \<Rightarrow> guest_op list \<Rightarrow> 'a CartState_scheme \<Rightarrow> 'a CartState_scheme" where
  "run_ops srv [] s = s"
| "run_ops srv (x # xs) s = run_ops srv xs (apply_op srv x s)"

text \<open>The provider of a visitor who is not logged in and has nothing stored.\<close>

definition guest_empty :: CartState where
  "guest_empty = \<lparr>items = [], loading = False, isLoggedIn = False, guest_cart = None,
     toasts = [], api_calls = [], console = []\<rparr>"

text \<open>
  What every guest operation keeps: no request is sent, no product occurs twice, and the
  stored cart is the list on display (or nothing was stored yet and the list is empty).
\<close>

definition guest_inv :: "'a CartState_scheme \<Rightarrow> bool" where
  "guest_inv s =
     (\<not> isLoggedIn s \<and> api_calls s = [] \<and> distinct (map product_id (items s)) \<and>
      (if guest_cart s = None then items s = [] else guest_cart s = Some (Json (items s))))"

section \<open>API client (website-new/client/lib/api.ts)\<close>

text \<open>
  What \<open>error.response?.status\<close> reads: the status of the response, or nothing when the
  request got no response at all.
\<close>

datatype http_error = Status nat | NoResponse

text \<open>
  The axios request config, with the fields the interceptors touch: the
  \<open>Authorization\<close> header and the \<open>_retry\<close> mark.
\<close>

record config =
  http_method :: string
  url :: string
  authorization :: "string option"
  retry :: bool

text \<open>
  The server is scripted from outside: one list holds its answers to the requests sent
  through \<open>this.client\<close>, in the order they are sent, another its answers to the posts to
  \<open>/api/v1/auth/refresh\<close> (sent with the bare \<open>axios\<close>, so no interceptor sees them).
  A request sent when its script is used up gets no response.
\<close>

datatype reply = Success string | Failure http_error

datatype refresh_reply = Refreshed string "string option" | RefreshFailed http_error

datatype request = Request config | RefreshPost "string option"

text \<open>
  The browser as the client sees it: the two token keys of local storage,
  \<open>window.location.href\<close>, and the requests that left, in order.
\<close>

record Browser =
  access_token :: "string option"
  refresh_token :: "string option"
  location_href :: string
  network :: "request list"

text \<open>The request interceptor.\<close>

definition attach_token :: "'a Browser_scheme \<Rightarrow> config \<Rightarrow> config" where
  "attach_token b cfg =
     (if truthy (access_token b)
      then cfg\<lparr>authorization := Some (''Bearer '' @ the (access_token b))\<rparr>
      else cfg)"

definition send :: "request \<Rightarrow> 'a Browser_scheme \<Rightarrow> 'a Browser_scheme" where
  "send r b = b\<lparr>network := network b @ [r]\<rparr>"

text \<open>The \<open>catch (refreshError)\<close> block of the response interceptor.\<close>

definition give_up :: "'a Browser_scheme \<Rightarrow> 'a Browser_scheme" where
  "give_up b = b\<lparr>access_token := None, refresh_token := None, location_href := ''/login''\<rparr>"

definition store_tokens :: "string \<Rightarrow> string option \<Rightarrow> 'a Browser_scheme \<Rightarrow> 'a Browser_scheme" where
  "store_tokens at nrt b =
     (if truthy nrt then b\<lparr>access_token := Some at, refresh_token := nrt\<rparr>
      else b\<lparr>access_token := Some at\<rparr>)"

text \<open>
  \<open>this.client(config)\<close>: the request interceptor, the request, and on an error the
  response interceptor, which calls \<open>this.client\<close> again for the retry. The retry is
  returned without \<open>await\<close>, so its rejection is not caught by the \<open>catch\<close> around the
  refresh: it goes through the interceptor of the second call and from there to the
  caller. The result is the settled promise (\<open>Inl\<close> a rejection), the unused scripts and
  the browser.
\<close>

fun client ::
  "config \<Rightarrow> reply list \<Rightarrow> refresh_reply list \<Rightarrow> 'a Browser_scheme \<Rightarrow>
     (http_error + string) \<times> reply list \<times> refresh_reply list \<times> 'a Browser_scheme" where
  "client cfg [] rfs b = (Inl NoResponse, [], rfs, send (Request (attach_token b cfg)) b)"
| "client cfg (Success body # rs) rfs b = (Inr body, rs, rfs, send (Request (attach_token b cfg)) b)"
| "client cfg (Failure err # rs) rfs b =
     (let originalRequest = attach_token b cfg;
          b1 = send (Request originalRequest) b
      in if err = Status 401 \<and> \<not> retry originalRequest then
           (let b2 = send (RefreshPost (refresh_token b1)) b1 in
            case rfs of
              [] \<Rightarrow> (Inl NoResponse, rs, [], give_up b2)
            | RefreshFailed refreshError # rfs' \<Rightarrow> (Inl refreshError, rs, rfs', give_up b2)
            | Refreshed at nrt # rfs' \<Rightarrow>
                client (originalRequest\<lparr>retry := True, authorization := Some (''Bearer '' @ at)\<rparr>)
                  rs rfs' (store_tokens at nrt b2))
         else (Inl err, rs, rfs, b1))"

definition outcome_of :: "'r \<times> reply list \<times> refresh_reply list \<times> 'b \<Rightarrow> 'r" where
  "outcome_of out = fst out"

definition browser_of :: "'r \<times> reply list \<times> refresh_reply list \<times> 'b \<Rightarrow> 'b" where
  "browser_of out = snd (snd (snd out))"

definition is_refresh :: "request \<Rightarrow> bool" where
  "is_refresh r = (case r of RefreshPost _ \<Rightarrow> True | Request _ \<Rightarrow> False)"

text \<open>The requests that left during one call: what the call added to the log.\<close>

definition sent_by ::
  "'a Browser_scheme \<Rightarrow>
     (http_error + string) \<times> reply list \<times> refresh_reply list \<times> 'a Browser_scheme \<Rightarrow>
     request list" where
  "sent_by b out = drop (length (network b)) (network (browser_of out))"

definition reply_outcome :: "reply \<Rightarrow> http_error + string" where
  "reply_outcome r = (case r of Success body \<Rightarrow> Inr body | Failure err \<Rightarrow> Inl err)"

text \<open>\<open>ApiService.logout\<close>: the post, and the token removal in \<open>finally\<close>.\<close>

definition apiService_logout ::
  "reply list \<Rightarrow> refresh_reply list \<Rightarrow> 'a Browser_scheme \<Rightarrow>
     (http_error + string) \<times> 'a Browser_scheme" where
  "apiService_logout rs rfs b =
     (let out = client \<lparr>http_method = ''POST'', url = ''/api/v1/auth/logout'', authorization = None,
                         retry = False\<rparr> rs rfs b
      in (outcome_of out, (browser_of out)\<lparr>access_token := None, refresh_token := None\<rparr>))"

section \<open>Auth context (website-new/client/context/AuthContext.tsx)\<close>

text \<open>
  The provider's \<open>isLoggedIn\<close> hook (named \<open>isLoggedIn_state\<close> here, the cart's record
  has the value it reads) and the query client's cache, on top of the browser.
\<close>

record AuthState = Browser +
  isLoggedIn_state :: bool
  query_cache :: "string list"

definition login :: "string \<Rightarrow> string \<Rightarrow> 'a AuthState_scheme \<Rightarrow> 'a AuthState_scheme" where
  "login accessToken refreshToken a =
     a\<lparr>access_token := Some accessToken, refresh_token := Some refreshToken,
       isLoggedIn_state := True\<rparr>"

text \<open>
  \<open>logout\<close>: the \<open>catch\<close> swallows a rejection of \<open>apiService.logout\<close>, the \<open>finally\<close>
  block runs in both cases.
\<close>

definition logout ::
  "reply list \<Rightarrow> refresh_reply list \<Rightarrow> 'a AuthState_scheme \<Rightarrow> 'a AuthState_scheme" where
  "logout rs rfs a =
     (let (res, a1) = apiService_logout rs rfs a;
          a2 = (case res of Inr _ \<Rightarrow> a1 | Inl _ \<Rightarrow> a1)
      in a2\<lparr>access_token := None, refresh_token := None, isLoggedIn_state := False,
            query_cache := []\<rparr>)"

section \<open>Mobile API client (the Dio \<open>ApiService\<close> in mobile/lib)\<close>

record RequestOptions =
  path :: string
  header_authorization :: "string option"

datatype dio_request = Fetch RequestOptions | RefreshCall string

text \<open>Secure storage and the requests that left the device.\<close>

record Device =
  stored_access_token :: "string option"
  stored_refresh_token :: "string option"
  traffic :: "dio_request list"

definition onRequest :: "Device \<Rightarrow> RequestOptions \<Rightarrow> RequestOptions" where
  "onRequest d options =
     (case stored_access_token d of
        Some token \<Rightarrow> options\<lparr>header_authorization := Some (''Bearer '' @ token)\<rparr>
      | None \<Rightarrow> options)"

definition refreshToken ::
  "refresh_reply list \<Rightarrow> Device \<Rightarrow> bool \<times> refresh_reply list \<times> Device" where
  "refreshToken rfs d =
     (case stored_refresh_token d of
        None \<Rightarrow> (False, rfs, d)
      | Some refreshToken \<Rightarrow>
          (let d1 = d\<lparr>traffic := traffic d @ [RefreshCall refreshToken]\<rparr> in
           case rfs of
             [] \<Rightarrow> (False, [], d1)
           | RefreshFailed _ # rfs' \<Rightarrow> (False, rfs', d1)
           | Refreshed at nrt # rfs' \<Rightarrow>
               (True, rfs', d1\<lparr>stored_access_token := Some at, stored_refresh_token := nrt\<rparr>)))"

text \<open>
  \<open>_dio.fetch(options)\<close> with the interceptors of the constructor. \<open>onError\<close> has no mark
  on the request: every 401 is followed by \<open>_refreshToken\<close> and, when that succeeds, by
  another \<open>_dio.fetch\<close>, which runs the same interceptors. An error of that inner fetch
  is taken as the outcome of the outer one.
\<close>

fun dio_fetch ::
  "RequestOptions \<Rightarrow> reply list \<Rightarrow> refresh_reply list \<Rightarrow> Device \<Rightarrow>
     (http_error + string) \<times> reply list \<times> refresh_reply list \<times> Device" where
  "dio_fetch options [] rfs d =
     (Inl NoResponse, [], rfs, d\<lparr>traffic := traffic d @ [Fetch (onRequest d options)]\<rparr>)"
| "dio_fetch options (Success body # rs) rfs d =
     (Inr body, rs, rfs, d\<lparr>traffic := traffic d @ [Fetch (onRequest d options)]\<rparr>)"
| "dio_fetch options (Failure err # rs) rfs d =
     (let opts = onRequest d options;
          d1 = d\<lparr>traffic := traffic d @ [Fetch opts]\<rparr>
      in if err = Status 401 then
           (case refreshToken rfs d1 of
              (refreshed, rfs', d2) \<Rightarrow>
                if refreshed then
                  dio_fetch
                    (opts\<lparr>header_authorization :=
                       Some (''Bearer '' @ (case stored_access_token d2 of Some token \<Rightarrow> token
                                            | None \<Rightarrow> ''null''))\<rparr>)
                    rs rfs' d2
                else (Inl err, rs, rfs', d2))
         else (Inl err, rs, rfs, d1))"

definition is_refresh_call :: "dio_request \<Rightarrow> bool" where
  "is_refresh_call r = (case r of RefreshCall _ \<Rightarrow> True | Fetch _ \<Rightarrow> False)"

section \<open>Checkout page (the \<open>Checkout\<close> component in website-new/client/pages)\<close>

text \<open>The fields of the \<open>createOrder\<close> and \<open>createPayment\<close> responses that the page reads.\<close>

record Order =
  id_order :: string
  order_number :: string
  total :: int

record Payment =
  payment_order_id :: string
  razorpay_key_id :: string
  amount :: int
  currency :: string

text \<open>
  \<open>handleCreateOrder\<close> is asynchronous: between two \<open>await\<close>s it runs without
  interruption, and at an \<open>await\<close> any other handler of the page may run. One invocation
  that got past its guards is therefore kept as the point where it waits:
  for \<open>createOrder\<close>, for \<open>createPayment\<close>, for the Razorpay script, for the widget
  (which then calls \<open>handler\<close>, \<open>payment.failed\<close> or \<open>ondismiss\<close>), and inside \<open>handler\<close>
  for \<open>verifyPayment\<close> and for the server call of \<open>clearCart\<close>.
\<close>

datatype phase =
    AwaitCreateOrder
  | AwaitCreatePayment Order
  | AwaitScript Order Payment
  | WidgetOpen Order Payment
  | AwaitVerify Order
  | AwaitClearCart Order
  | Finished

text \<open>
  The page's state on top of the cart context it uses: the hooks \<open>selectedAddressId\<close>,
  \<open>processing\<close> and \<open>orderSuccess\<close>, the refs \<open>orderInFlight\<close> and
  \<open>paymentJustCompleted\<close>, and the invocations of \<open>handleCreateOrder\<close> under way.
  Nothing in the record limits their number: a click that passes the guards adds one.
\<close>

record Checkout = CartState +
  selectedAddressId :: "string option"
  processing :: bool
  orderInFlight :: bool
  paymentJustCompleted :: bool
  orderSuccess :: "(string \<times> int) option"
  flows :: "phase list"

text \<open>
  What can happen on the page. \<open>PlaceOrder\<close> is a click on the button; it carries the
  value of \<open>processing\<close> that the closure handling the click has captured, which is the
  hook's value at the last render and may be older than the current one. The other
  events name the invocation they belong to by its position in \<open>flows\<close>.
\<close>

datatype event =
    PlaceOrder bool
  | CreateOrderSettled nat "Order response"
  | CreatePaymentSettled nat "Payment response"
  | ScriptLoaded nat bool
  | PaymentSucceeded nat RazorpayResponse
  | PaymentFailed nat "string option"
  | ModalDismissed nat
  | VerifySettled nat "unit response"
  | ClearCartSettled nat "unit response"

definition release :: "'a Checkout_scheme \<Rightarrow> 'a Checkout_scheme" where
  "release s = s\<lparr>processing := False, orderInFlight := False\<rparr>"

definition set_phase :: "nat \<Rightarrow> phase \<Rightarrow> 'a Checkout_scheme \<Rightarrow> 'a Checkout_scheme" where
  "set_phase i ph s = s\<lparr>flows := (flows s)[i := ph]\<rparr>"

text \<open>The guards of \<open>handleCreateOrder\<close> and its code up to the first \<open>await\<close>.\<close>

definition handleCreateOrder :: "bool \<Rightarrow> 'a Checkout_scheme \<Rightarrow> 'a Checkout_scheme" where
  "handleCreateOrder processing_seen s =
     (if \<not> truthy (selectedAddressId s) then
        notify (ToastError (Text ''Please select a delivery address'')) s
      else if orderInFlight s \<or> processing_seen then s
      else
        (call (CreateOrder (the (selectedAddressId s)))
           (s\<lparr>orderInFlight := True, processing := True\<rparr>))
        \<lparr>flows := flows s @ [AwaitCreateOrder]\<rparr>)"

text \<open>The outer \<open>catch\<close> of \<open>handleCreateOrder\<close>.\<close>

definition order_failed :: "string option \<Rightarrow> 'a Checkout_scheme \<Rightarrow> 'a Checkout_scheme" where
  "order_failed detail s =
     release (notify (ToastError (Text (or_else detail ''Failed to process order'')))
       (console_error ''Order creation failed:'' s))"

definition after_createOrder :: "nat \<Rightarrow> Order response \<Rightarrow> 'a Checkout_scheme \<Rightarrow> 'a Checkout_scheme" where
  "after_createOrder i r s =
     (case r of
        Resolved orderRes \<Rightarrow>
          set_phase i (AwaitCreatePayment orderRes) (call (CreatePayment (id_order orderRes)) s)
      | Rejected detail \<Rightarrow> set_phase i Finished (order_failed detail s))"

definition after_createPayment ::
  "nat \<Rightarrow> Order \<Rightarrow> Payment response \<Rightarrow> 'a Checkout_scheme \<Rightarrow> 'a Checkout_scheme" where
  "after_createPayment i orderRes r s =
     (case r of
        Resolved paymentRes \<Rightarrow> set_phase i (AwaitScript orderRes paymentRes) s
      | Rejected detail \<Rightarrow> set_phase i Finished (order_failed detail s))"

definition after_loadRazorpayScript ::
  "nat \<Rightarrow> Order \<Rightarrow> Payment \<Rightarrow> bool \<Rightarrow> 'a Checkout_scheme \<Rightarrow> 'a Checkout_scheme" where
  "after_loadRazorpayScript i orderRes paymentRes scriptLoaded s =
     (if \<not> scriptLoaded then
        set_phase i Finished
          (release (notify (ToastError
             (Text ''Failed to load payment gateway. Please refresh and try again.'')) s))
      else set_phase i (WidgetOpen orderRes paymentRes) s)"

text \<open>The \<open>handler\<close> option of the widget, in its three stretches.\<close>

definition handler_start ::
  "nat \<Rightarrow> Order \<Rightarrow> RazorpayResponse \<Rightarrow> 'a Checkout_scheme \<Rightarrow> 'a Checkout_scheme" where
  "handler_start i orderRes response s =
     set_phase i (AwaitVerify orderRes) (call (VerifyPayment response) s)"

definition handler_finish :: "nat \<Rightarrow> Order \<Rightarrow> 'a Checkout_scheme \<Rightarrow> 'a Checkout_scheme" where
  "handler_finish i orderRes s =
     set_phase i Finished
       (release (s\<lparr>orderSuccess := Some (order_number orderRes, total orderRes)\<rparr>))"

definition handler_after_verify ::
  "nat \<Rightarrow> Order \<Rightarrow> unit response \<Rightarrow> 'a Checkout_scheme \<Rightarrow> 'a Checkout_scheme" where
  "handler_after_verify i orderRes r s =
     (case r of
        Resolved _ \<Rightarrow>
          (let s1 = s\<lparr>paymentJustCompleted := True\<rparr> in
           if isLoggedIn s1 then set_phase i (AwaitClearCart orderRes) (call ClearCart s1)
           else handler_finish i orderRes (clearCart_finally s1))
      | Rejected _ \<Rightarrow>
          set_phase i Finished
            (release (notify (ToastError
               (Text ''Payment verification failed. Contact support if amount was deducted.''))
               (console_error ''Payment verification failed:'' s))))"

definition handler_after_clearCart ::
  "nat \<Rightarrow> Order \<Rightarrow> unit response \<Rightarrow> 'a Checkout_scheme \<Rightarrow> 'a Checkout_scheme" where
  "handler_after_clearCart i orderRes r s =
     handler_finish i orderRes
       (clearCart_finally
          (case r of Resolved _ \<Rightarrow> s | Rejected _ \<Rightarrow> console_error ''Clear cart error:'' s))"

text \<open>
  The \<open>payment.failed\<close> listener and the \<open>ondismiss\<close> option (the dash in the toast's
  text is written as a hyphen here).
\<close>

definition payment_failed :: "string option \<Rightarrow> 'a Checkout_scheme \<Rightarrow> 'a Checkout_scheme" where
  "payment_failed description s =
     release (notify (ToastError (Text (or_else description ''Payment failed''))) s)"

definition ondismiss :: "'a Checkout_scheme \<Rightarrow> 'a Checkout_scheme" where
  "ondismiss s =
     notify (ToastInfo
       (Text ''Payment cancelled. Your order is saved - you can retry from your account.''))
       (release s)"

text \<open>
  One event. An event for an invocation that does not exist or does not wait for it
  changes nothing. After \<open>payment.failed\<close> the widget stays open (it offers another
  attempt), after \<open>ondismiss\<close> it is closed.
\<close>

definition waiting :: "nat \<Rightarrow> 'a Checkout_scheme \<Rightarrow> phase" where
  "waiting i s = (if i < length (flows s) then flows s ! i else Finished)"

fun step :: "event \<Rightarrow> 'a Checkout_scheme \<Rightarrow> 'a Checkout_scheme" where
  "step (PlaceOrder processing_seen) s = handleCreateOrder processing_seen s"
| "step (CreateOrderSettled i r) s =
     (case waiting i s of AwaitCreateOrder \<Rightarrow> after_createOrder i r s | _ \<Rightarrow> s)"
| "step (CreatePaymentSettled i r) s =
     (case waiting i s of AwaitCreatePayment orderRes \<Rightarrow> after_createPayment i orderRes r s | _ \<Rightarrow> s)"
| "step (ScriptLoaded i scriptLoaded) s =
     (case waiting i s of
        AwaitScript orderRes paymentRes \<Rightarrow> after_loadRazorpayScript i orderRes paymentRes scriptLoaded s
      | _ \<Rightarrow> s)"
| "step (PaymentSucceeded i response) s =
     (case waiting i s of WidgetOpen orderRes _ \<Rightarrow> handler_start i orderRes response s | _ \<Rightarrow> s)"
| "step (PaymentFailed i description) s =
     (case waiting i s of WidgetOpen _ _ \<Rightarrow> payment_failed description s | _ \<Rightarrow> s)"
| "step (ModalDismissed i) s =
     (case waiting i s of WidgetOpen _ _ \<Rightarrow> set_phase i Finished (ondismiss s) | _ \<Rightarrow> s)"
| "step (VerifySettled i r) s =
     (case waiting i s of AwaitVerify orderRes \<Rightarrow> handler_after_verify i orderRes r s | _ \<Rightarrow> s)"
| "step (ClearCartSettled i r) s =
     (case waiting i s of AwaitClearCart orderRes \<Rightarrow> handler_after_clearCart i orderRes r s | _ \<Rightarrow> s)"

fun run :: "event list \<Rightarrow> 'a Checkout_scheme \<Rightarrow> 'a Checkout_scheme" where
  "run [] s = s"
| "run (e # es) s = run es (step e s)"

text \<open>The latch is set before each event of the list is handled.\<close>

fun latched :: "event list \<Rightarrow> 'a Checkout_scheme \<Rightarrow> bool" where
  "latched [] s = True"
| "latched (e # es) s = (orderInFlight s \<and> latched es (step e s))"

definition is_CreateOrder :: "api_call \<Rightarrow> bool" where
  "is_CreateOrder c = (case c of CreateOrder _ \<Rightarrow> True | _ \<Rightarrow> False)"

definition is_CreatePayment :: "api_call \<Rightarrow> bool" where
  "is_CreatePayment c = (case c of CreatePayment _ \<Rightarrow> True | _ \<Rightarrow> False)"

definition orders_created :: "'a CartState_scheme \<Rightarrow> nat" where
  "orders_created s = length (filter is_CreateOrder (api_calls s))"

definition payments_created :: "'a CartState_scheme \<Rightarrow> nat" where
  "payments_created s = length (filter is_CreatePayment (api_calls s))"

text \<open>Whether an answer with a created order for invocation \<open>i\<close> is among the events.\<close>

fun order_created_for :: "nat \<Rightarrow> event \<Rightarrow> bool" where
  "order_created_for i (CreateOrderSettled j (Resolved _)) = (i = j)"
| "order_created_for i _ = False"

text \<open>The invocation an event belongs to.\<close>

fun target :: "event \<Rightarrow> nat option" where
  "target (PlaceOrder _) = None"
| "target (CreateOrderSettled i _) = Some i"
| "target (CreatePaymentSettled i _) = Some i"
| "target (ScriptLoaded i _) = Some i"
| "target (PaymentSucceeded i _) = Some i"
| "target (PaymentFailed i _) = Some i"
| "target (ModalDismissed i) = Some i"
| "target (VerifySettled i _) = Some i"
| "target (ClearCartSettled i _) = Some i"

section \<open>Account page: paying a pending order (\<open>handleContinuePayment\<close>)\<close>

record Account =
  paymentInFlight :: bool
  payingOrderId :: "string option"
  requests :: "api_call list"

text \<open>The guard of \<open>handleContinuePayment\<close> and its code up to the first \<open>await\<close>.\<close>

definition handleContinuePayment :: "Order \<Rightarrow> Account \<Rightarrow> Account" where
  "handleContinuePayment order' a =
     (if paymentInFlight a then a
      else a\<lparr>paymentInFlight := True, payingOrderId := Some (id_order order'),
             requests := requests a @ [CreatePayment (id_order order')]\<rparr>)"

section \<open>Mobile checkout screen (mobile/lib/screens/checkout/checkout_screen.dart)\<close>

text \<open>
  The fields of \<open>_CheckoutScreenState\<close> that \<open>_placeOrder\<close> and the two buttons read,
  the snack bars shown and the addresses for which \<open>createOrder\<close> was requested.
\<close>

record CheckoutScreen =
  currentStep :: nat
  selectedAddressId_screen :: "string option"
  isProcessing :: bool
  snackBars :: "string list"
  orders_requested :: "string list"

text \<open>
  \<open>_placeOrder\<close> up to its first \<open>await\<close>. It sets \<open>_isProcessing\<close> and never reads it.
\<close>

definition placeOrder :: "CheckoutScreen \<Rightarrow> CheckoutScreen" where
  "placeOrder w =
     (case selectedAddressId_screen w of
        None \<Rightarrow> w\<lparr>snackBars := snackBars w @ [''Please select a delivery address'']\<rparr>
      | Some addressId \<Rightarrow>
          w\<lparr>isProcessing := True, orders_requested := orders_requested w @ [addressId]\<rparr>)"

text \<open>
  The taps the screen handles: the stepper's continue and cancel buttons and the
  place-order button, whose \<open>onPressed\<close> is \<open>null\<close> while \<open>_isProcessing\<close> holds.
\<close>

datatype tap = StepContinue | StepCancel | PlaceOrderButton

fun on_tap :: "tap \<Rightarrow> CheckoutScreen \<Rightarrow> CheckoutScreen" where
  "on_tap StepContinue w =
     (if currentStep w < 2 then w\<lparr>currentStep := currentStep w + 1\<rparr> else placeOrder w)"
| "on_tap StepCancel w =
     (if currentStep w > 0 then w\<lparr>currentStep := currentStep w - 1\<rparr> else w)"
| "on_tap PlaceOrderButton w = (if isProcessing w then w else placeOrder w)"

fun taps :: "tap list \<Rightarrow> CheckoutScreen \<Rightarrow> CheckoutScreen" where
  "taps [] w = w"
| "taps (t # ts) w = taps ts (on_tap t w)"

text \<open>The screen as \<open>createState\<close> makes it. No code assigns \<open>_selectedAddressId\<close>.\<close>

definition screen0 :: CheckoutScreen where
  "screen0 = \<lparr>currentStep = 0, selectedAddressId_screen = None, isProcessing = False,
     snackBars = [], orders_requested = []\<rparr>"

section \<open>Concrete inputs\<close>

definition srv_ok :: server where
  "srv_ok = \<lparr>r_mergeCart = Resolved (), r_getCart = Resolved (Some []),
     r_addToCart = Resolved (), r_updateCartItem = Resolved (),
     r_removeFromCart = Resolved (), r_clearCart = Resolved ()\<rparr>"

definition srv_down :: server where
  "srv_down = \<lparr>r_mergeCart = Rejected None, r_getCart = Rejected None,
     r_addToCart = Rejected None, r_updateCartItem = Rejected None,
     r_removeFromCart = Rejected None, r_clearCart = Rejected None\<rparr>"

definition mala :: Product where
  "mala = \<lparr>id_product = ''p1'', name = ''Karungali Mala'', price = 499, images = [],
     slug = ''karungali-mala-108'', stock = 20, is_active = True\<rparr>"

definition mala_item :: "int \<Rightarrow> CartItem" where
  "mala_item q = \<lparr>id_item = None, product_id = ''p1'', quantity = q, product = mala\<rparr>"

definition server_item :: CartItem where
  "server_item = \<lparr>id_item = Some ''ci-7'', product_id = ''p1'', quantity = 2, product = mala\<rparr>"

definition guest_with_mala :: CartState where
  "guest_with_mala = \<lparr>items = [mala_item 1], loading = False, isLoggedIn = False,
     guest_cart = Some (Json [mala_item 1]), toasts = [], api_calls = [], console = []\<rparr>"

definition member_with_mala :: CartState where
  "member_with_mala = \<lparr>items = [server_item], loading = False, isLoggedIn = True,
     guest_cart = None, toasts = [], api_calls = [], console = []\<rparr>"

definition logged_in_with_guest_cart :: CartState where
  "logged_in_with_guest_cart = \<lparr>items = [mala_item 2], loading = False, isLoggedIn = True,
     guest_cart = Some (Json [mala_item 2]), toasts = [], api_calls = [], console = []\<rparr>"

definition browser0 :: Browser where
  "browser0 = \<lparr>access_token = Some ''a1'', refresh_token = Some ''r1'', location_href = ''/cart'',
      network = []\<rparr>"

definition get_cart :: config where
  "get_cart = \<lparr>http_method = ''GET'', url = ''/api/v1/cart'', authorization = None, retry = False\<rparr>"

definition auth0 :: AuthState where
  "auth0 = \<lparr>access_token = Some ''a1'', refresh_token = Some ''r1'', location_href = ''/profile'',
      network = [], isLoggedIn_state = True, query_cache = [''cart'', ''orders'', ''profile'']\<rparr>"

definition checkout0 :: Checkout where
  "checkout0 = \<lparr>items = [server_item], loading = False, isLoggedIn = True, guest_cart = None,
     toasts = [], api_calls = [], console = [],
     selectedAddressId = Some ''addr-1'', processing = False, orderInFlight = False,
     paymentJustCompleted = False, orderSuccess = None, flows = []\<rparr>"

definition order1 :: Order where
  "order1 = \<lparr>id_order = ''o-1'', order_number = ''KH-1001'', total = 998\<rparr>"

definition payment1 :: Payment where
  "payment1 = \<lparr>payment_order_id = ''order_R1'', razorpay_key_id = ''rzp_key'', amount = 99800,
     currency = ''INR''\<rparr>"

definition paid1 :: RazorpayResponse where
  "paid1 = \<lparr>razorpay_order_id = ''order_R1'', razorpay_payment_id = ''pay_1'',
     razorpay_signature = ''sig''\<rparr>"

definition to_widget :: "event list" where
  "to_widget = [PlaceOrder False, CreateOrderSettled 0 (Resolved order1),
     CreatePaymentSettled 0 (Resolved payment1), ScriptLoaded 0 True]"

definition account0 :: Account where
  "account0 = \<lparr>paymentInFlight = False, payingOrderId = None, requests = []\<rparr>"

definition at_widget :: Checkout where
  "at_widget = checkout0\<lparr>api_calls := [CreateOrder ''addr-1'', CreatePayment ''o-1''],
     processing := True, orderInFlight := True, flows := [WidgetOpen order1 payment1]\<rparr>"

definition rapid_clicks :: "event list" where
  "rapid_clicks = [PlaceOrder False, PlaceOrder True, CreateOrderSettled 0 (Resolved order1),
     PlaceOrder False, CreatePaymentSettled 0 (Resolved payment1), PlaceOrder True,
     ScriptLoaded 0 True, PlaceOrder False, ModalDismissed 0]"

section \<open>Cart: guest operations and the merge at login\<close>

lemma findIndex_None: "findIndex p xs = None \<longleftrightarrow> (\<forall>x \<in> set xs. \<not> p x)"
  by (induction xs) auto

lemma findIndex_Some: "findIndex p xs = Some k \<Longrightarrow> k < length xs \<and> p (xs ! k)"
  by (induction xs arbitrary: k) (auto split: if_splits)

lemma map_product_id_update:
  "map product_id (xs[k := (xs ! k)\<lparr>quantity := q\<rparr>]) = map product_id xs"
  by (induction xs arbitrary: k) (auto split: nat.splits)

lemma guest_inv_addToCart: "guest_inv s \<Longrightarrow> guest_inv (addToCart srv p qty s)"
  by (auto simp: guest_inv_def addToCart_def notify_def Let_def map_product_id_update
        findIndex_None split: option.splits)

lemma guest_inv_updateQuantity: "guest_inv s \<Longrightarrow> guest_inv (updateQuantity srv productId qty s)"
  by (auto simp: guest_inv_def updateQuantity_def notify_def Let_def map_product_id_update
        split: option.splits)

lemma guest_inv_removeFromCart: "guest_inv s \<Longrightarrow> guest_inv (removeFromCart srv productId s)"
  by (auto simp: guest_inv_def removeFromCart_def notify_def Let_def distinct_map_filter)

lemma guest_inv_apply_op: "guest_inv s \<Longrightarrow> guest_inv (apply_op srv x s)"
  by (cases x) (simp_all add: guest_inv_addToCart guest_inv_updateQuantity guest_inv_removeFromCart)

lemma guest_inv_run_ops: "guest_inv s \<Longrightarrow> guest_inv (run_ops srv xs s)"
  by (induction xs arbitrary: s) (simp_all add: guest_inv_apply_op)

lemma guest_inv_empty: "guest_inv guest_empty"
  by (simp add: guest_inv_def guest_empty_def)

lemma refreshCart_login_calls:
  "guest_inv s \<Longrightarrow>
     api_calls (refreshCart srv (s\<lparr>isLoggedIn := True\<rparr>)) =
       (if items s = [] then [GetCart] else [MergeCart (mergePayload (items s)), GetCart])"
  by (auto simp: guest_inv_def refreshCart_def mergeGuestCart_def call_def console_error_def Let_def
        split: option.splits response.splits if_splits stored.splits)

lemma refreshCart_login_storage:
  "isLoggedIn s \<Longrightarrow> guest_cart (refreshCart srv s) = None"
  by (auto simp: refreshCart_def mergeGuestCart_def call_def console_error_def Let_def
        split: option.splits response.splits stored.splits)

lemma addToCart_mala_1: "addToCart srv_ok mala 1 guest_empty =
    guest_empty\<lparr>items := [mala_item 1], guest_cart := Some (Json [mala_item 1]),
      toasts := [ToastSuccess (Text ''Added to cart'')]\<rparr>"
  by (simp add: addToCart_def guest_empty_def mala_def mala_item_def notify_def Let_def)

text \<open>\<open>addToCart\<close> applies the cap: a guest cart within the cap stays within it.\<close>

lemma addToCart_guest_keeps_cap:
  assumes "\<not> isLoggedIn s" and "list_all (\<lambda>i. quantity i \<le> 10) (items s)"
  shows "list_all (\<lambda>i. quantity i \<le> 10) (items (addToCart srv p qty s))"
  using assms
  by (auto simp: addToCart_def notify_def Let_def list_all_iff
        split: option.splits dest!: subsetD [OF set_update_subset_insert])

text \<open>
  C1. The claim: along every sequence of guest operations every quantity stays at most
  \<open>min stock 10\<close>, and \<open>updateQuantity\<close> never sets a quantity above 10. The code caps
  at 10 in \<open>addToCart\<close> only: in guest mode \<open>updateQuantity\<close> compares the requested
  quantity with the stock of the item's product snapshot and then stores it as it is,
  so every quantity from 11 up to the stock is accepted. The theorem states what
  \<open>updateQuantity\<close> stores; its witness is the run "add one, then set to 15" on a product
  with stock 20, which ends with quantity 15 against a bound of 10.
\<close>

theorem updateQuantity_guest_ignores_cap:
  assumes "\<not> isLoggedIn s"
    and "findIndex (\<lambda>i. product_id i = productId) (items s) = Some k"
    and "1 \<le> qty" and "qty \<le> stock (product (items s ! k))"
  shows "map quantity (items (updateQuantity srv productId qty s)) = (map quantity (items s))[k := qty]"
  using assms by (simp add: updateQuantity_def Let_def map_update)

theorem updateQuantity_guest_ignores_cap_witness:
  "map quantity (items (run_ops srv_ok [Add mala 1, Update ''p1'' 15] guest_empty)) = [15] \<and>
   map (\<lambda>i. min (stock (product i)) 10)
     (items (run_ops srv_ok [Add mala 1, Update ''p1'' 15] guest_empty)) = [10]"
proof -
  note t = updateQuantity_guest_ignores_cap
    [of "addToCart srv_ok mala 1 guest_empty" "''p1''" 0 15 srv_ok, unfolded addToCart_mala_1]
  show ?thesis
    unfolding run_ops.simps apply_op.simps addToCart_mala_1 using t
    by (simp add: guest_empty_def mala_item_def mala_def updateQuantity_def Let_def)
qed

text \<open>
  C5. When the provider refreshes in the logged-in state and local storage holds a
  non-empty guest cart, it sends exactly one merge request carrying the guest items and
  then one cart fetch, whatever the merge answers (\<open>srv\<close> is arbitrary, so the merge may
  resolve or reject); the \<open>guest_cart\<close> key is gone afterwards; the items shown are those
  of the server's answer when the fetch resolves (and stay as they were when it rejects);
  and a further refresh sends a fetch only, so the merge is not tried again.
\<close>

theorem login_merges_once_and_clears:
  assumes "isLoggedIn s" and "guest_cart s = Some (Json guestItems)" and "guestItems \<noteq> []"
  shows "api_calls (refreshCart srv s) =
           api_calls s @ [MergeCart (mergePayload guestItems), GetCart] \<and>
         guest_cart (refreshCart srv s) = None \<and>
         items (refreshCart srv s) =
           (case r_getCart srv of
              Resolved d \<Rightarrow> (case d of None \<Rightarrow> [] | Some cartItems \<Rightarrow> cartItems)
            | Rejected e \<Rightarrow> items s) \<and>
         api_calls (refreshCart srv' (refreshCart srv s)) =
           api_calls s @ [MergeCart (mergePayload guestItems), GetCart, GetCart]"
  using assms
  by (auto simp: refreshCart_def mergeGuestCart_def call_def console_error_def Let_def
        split: response.splits option.splits)

theorem login_merges_once_and_clears_witness:
  "api_calls (refreshCart srv_down logged_in_with_guest_cart) = [MergeCart [(''p1'', 2)], GetCart] \<and>
   guest_cart (refreshCart srv_down logged_in_with_guest_cart) = None \<and>
   items (refreshCart srv_down logged_in_with_guest_cart) = [mala_item 2] \<and>
   api_calls (refreshCart srv_ok logged_in_with_guest_cart) = [MergeCart [(''p1'', 2)], GetCart] \<and>
   guest_cart (refreshCart srv_ok logged_in_with_guest_cart) = None \<and>
   items (refreshCart srv_ok logged_in_with_guest_cart) = [] \<and>
   api_calls (refreshCart srv_ok (refreshCart srv_down logged_in_with_guest_cart)) =
     [MergeCart [(''p1'', 2)], GetCart, GetCart]"
  using login_merges_once_and_clears [of logged_in_with_guest_cart "[mala_item 2]" srv_down srv_ok]
    login_merges_once_and_clears [of logged_in_with_guest_cart "[mala_item 2]" srv_ok srv_ok]
  by (simp add: logged_in_with_guest_cart_def mergePayload_def mala_item_def srv_down_def srv_ok_def)

text \<open>
  C7. The claim: a quantity below 1 or above the stock is rejected with the state
  unchanged and a notification shown, also below 1. In the code a quantity below 1
  returns at once and shows nothing: the counterexample asks for quantity 0 and no toast
  appears.
\<close>

theorem updateQuantity_below_one_silent_counterexample:
  "toasts (updateQuantity srv_ok ''p1'' 0 guest_with_mala) = []"
  by (simp add: updateQuantity_def guest_with_mala_def)

text \<open>
  C7 as amended. A quantity below 1 leaves the whole state as it is, with no notification,
  in either mode. For a quantity of at least 1:
  in guest mode, when the product is not in the cart nothing changes and nothing is
  shown, and when it is and the quantity exceeds the stock of the item's product
  snapshot, items and storage stay as they are and the toast \<open>Only N items available\<close>
  is added;
  in the logged-in state the client does not compare with the stock. When the cart has
  no item of the product, or the item has no server id, nothing is sent, changed or
  shown. Otherwise the update is sent to the server with the item's id: when the server
  rejects it, items and storage stay as they are and the toast
  \<open>Failed to update quantity\<close> is added; when the server accepts it,
  \<open>refreshCart\<close> runs, so the items become those of the server's answer when its fetch
  resolves and stay as they are when it rejects, and no toast is added. No case raises an
  error.
\<close>

theorem updateQuantity_rejections:
  "(qty < 1 \<longrightarrow> updateQuantity srv productId qty s = s) \<and>
   (1 \<le> qty \<and> \<not> isLoggedIn s \<and>
      findIndex (\<lambda>i. product_id i = productId) (items s) = None \<longrightarrow>
    updateQuantity srv productId qty s = s) \<and>
   (1 \<le> qty \<and> \<not> isLoggedIn s \<and>
      findIndex (\<lambda>i. product_id i = productId) (items s) = Some k \<and>
      stock (product (items s ! k)) < qty \<longrightarrow>
    updateQuantity srv productId qty s =
      s\<lparr>toasts := toasts s @ [ToastError (OnlyItemsAvailable (stock (product (items s ! k))))]\<rparr>) \<and>
   (1 \<le> qty \<and> isLoggedIn s \<and>
      (find (\<lambda>i. product_id i = productId) (items s) = None \<or>
       (find (\<lambda>i. product_id i = productId) (items s) = Some item \<and> \<not> truthy (id_item item))) \<longrightarrow>
    updateQuantity srv productId qty s = s) \<and>
   (1 \<le> qty \<and> isLoggedIn s \<and>
      find (\<lambda>i. product_id i = productId) (items s) = Some item \<and> id_item item = Some itemId \<and>
      itemId \<noteq> [] \<and> r_updateCartItem srv = Rejected e \<longrightarrow>
    updateQuantity srv productId qty s =
      s\<lparr>toasts := toasts s @ [ToastError (Text ''Failed to update quantity'')],
        api_calls := api_calls s @ [UpdateCartItem itemId qty],
        console := console s @ [''Update quantity error:'']\<rparr>) \<and>
   (1 \<le> qty \<and> isLoggedIn s \<and>
      find (\<lambda>i. product_id i = productId) (items s) = Some item \<and> id_item item = Some itemId \<and>
      itemId \<noteq> [] \<and> r_updateCartItem srv = Resolved u \<longrightarrow>
    updateQuantity srv productId qty s =
      refreshCart srv (s\<lparr>api_calls := api_calls s @ [UpdateCartItem itemId qty]\<rparr>) \<and>
    toasts (updateQuantity srv productId qty s) = toasts s \<and>
    items (updateQuantity srv productId qty s) =
      (case r_getCart srv of
         Resolved d \<Rightarrow> (case d of None \<Rightarrow> [] | Some cartItems \<Rightarrow> cartItems)
       | Rejected x \<Rightarrow> items s))"
  by (auto simp: updateQuantity_def Let_def notify_def call_def console_error_def
        refreshCart_def mergeGuestCart_def
        split: response.splits option.splits stored.splits)

theorem updateQuantity_rejections_witness:
  "updateQuantity srv_ok ''p1'' 0 guest_with_mala = guest_with_mala \<and>
   updateQuantity srv_ok ''p9'' 3 guest_with_mala = guest_with_mala \<and>
   updateQuantity srv_ok ''p1'' 21 guest_with_mala =
     guest_with_mala\<lparr>toasts := [ToastError (OnlyItemsAvailable 20)]\<rparr> \<and>
   updateQuantity srv_ok ''p1'' 25 logged_in_with_guest_cart = logged_in_with_guest_cart \<and>
   updateQuantity srv_ok ''p9'' 25 member_with_mala = member_with_mala \<and>
   updateQuantity srv_down ''p1'' 21 member_with_mala =
     member_with_mala\<lparr>toasts := [ToastError (Text ''Failed to update quantity'')],
       api_calls := [UpdateCartItem ''ci-7'' 21], console := [''Update quantity error:'']\<rparr> \<and>
   updateQuantity srv_ok ''p1'' 21 member_with_mala =
     member_with_mala\<lparr>items := [], api_calls := [UpdateCartItem ''ci-7'' 21, GetCart]\<rparr>"
  using updateQuantity_rejections [of 0 srv_ok "''p1''" guest_with_mala]
    updateQuantity_rejections [of 3 srv_ok "''p9''" guest_with_mala]
    updateQuantity_rejections [of 21 srv_ok "''p1''" guest_with_mala 0]
    updateQuantity_rejections [of 25 srv_ok "''p1''" logged_in_with_guest_cart _ "mala_item 2"]
    updateQuantity_rejections [of 25 srv_ok "''p9''" member_with_mala]
    updateQuantity_rejections [of 21 srv_down "''p1''" member_with_mala _ server_item "''ci-7''" None]
    updateQuantity_rejections [of 21 srv_ok "''p1''" member_with_mala _ server_item "''ci-7''" _ "()"]
  by (simp add: guest_with_mala_def member_with_mala_def logged_in_with_guest_cart_def
        mala_item_def server_item_def mala_def srv_down_def srv_ok_def
        refreshCart_def mergeGuestCart_def call_def Let_def)

text \<open>
  C8. Every cart reached from the empty guest cart by \<open>addToCart\<close>, \<open>updateQuantity\<close> and
  \<open>removeFromCart\<close> lists each product at most once. At login the refresh therefore sends
  a merge payload with pairwise different product ids (and no merge at all for an empty
  cart), followed by the cart fetch, and the \<open>guest_cart\<close> key is gone afterwards.
\<close>

theorem guest_cart_one_entry_per_product:
  "distinct (map product_id (items (run_ops srv ops guest_empty))) \<and>
   api_calls (refreshCart srv' ((run_ops srv ops guest_empty)\<lparr>isLoggedIn := True\<rparr>)) =
     (if items (run_ops srv ops guest_empty) = [] then [GetCart]
      else [MergeCart (mergePayload (items (run_ops srv ops guest_empty))), GetCart]) \<and>
   distinct (map fst (mergePayload (items (run_ops srv ops guest_empty)))) \<and>
   guest_cart (refreshCart srv' ((run_ops srv ops guest_empty)\<lparr>isLoggedIn := True\<rparr>)) = None"
proof -
  have inv: "guest_inv (run_ops srv ops guest_empty)"
    by (rule guest_inv_run_ops [OF guest_inv_empty])
  then have d: "distinct (map product_id (items (run_ops srv ops guest_empty)))"
    by (simp add: guest_inv_def)
  have m: "map fst (mergePayload xs) = map product_id xs" for xs
    by (simp add: mergePayload_def comp_def)
  show ?thesis
    using d refreshCart_login_calls [OF inv, of srv']
      refreshCart_login_storage [of "(run_ops srv ops guest_empty)\<lparr>isLoggedIn := True\<rparr>" srv']
    by (simp add: m)
qed

theorem guest_cart_one_entry_per_product_witness:
  "map product_id (items (run_ops srv_ok [Add mala 1, Add mala 2] guest_empty)) = [''p1''] \<and>
   distinct (map product_id (items (run_ops srv_ok [Add mala 1, Add mala 2] guest_empty))) \<and>
   api_calls (refreshCart srv_down
       ((run_ops srv_ok [Add mala 1, Add mala 2] guest_empty)\<lparr>isLoggedIn := True\<rparr>)) =
     [MergeCart [(''p1'', 3)], GetCart] \<and>
   guest_cart (refreshCart srv_down
       ((run_ops srv_ok [Add mala 1, Add mala 2] guest_empty)\<lparr>isLoggedIn := True\<rparr>)) = None"
proof -
  have r: "items (run_ops srv_ok [Add mala 1, Add mala 2] guest_empty) = [mala_item 3]"
    by (simp add: addToCart_def guest_empty_def mala_def mala_item_def notify_def Let_def)
  show ?thesis
    using guest_cart_one_entry_per_product [of srv_ok "[Add mala 1, Add mala 2]" srv_down]
    unfolding r by (simp add: mergePayload_def mala_item_def)
qed

text \<open>
  C10. When the product is inactive or its stock is below the requested quantity,
  \<open>addToCart\<close> shows the toast \<open>Product not available or out of stock\<close> and returns
  before it looks at the login state: the items, the stored guest cart and the list of
  requests sent are the same afterwards, for a guest and for a logged-in user alike.
\<close>

theorem addToCart_unavailable_no_change:
  assumes "\<not> is_active p \<or> stock p < qty"
  shows "addToCart srv p qty s =
           s\<lparr>toasts := toasts s @ [ToastError (Text ''Product not available or out of stock'')]\<rparr> \<and>
         items (addToCart srv p qty s) = items s \<and>
         guest_cart (addToCart srv p qty s) = guest_cart s \<and>
         api_calls (addToCart srv p qty s) = api_calls s"
  using assms by (simp add: addToCart_def notify_def)

theorem addToCart_unavailable_no_change_witness:
  "addToCart srv_ok mala 21 guest_empty =
     guest_empty\<lparr>toasts := [ToastError (Text ''Product not available or out of stock'')]\<rparr> \<and>
   addToCart srv_ok (mala\<lparr>is_active := False\<rparr>) 1 (guest_empty\<lparr>isLoggedIn := True\<rparr>) =
     guest_empty\<lparr>isLoggedIn := True,
       toasts := [ToastError (Text ''Product not available or out of stock'')]\<rparr> \<and>
   api_calls (addToCart srv_ok (mala\<lparr>is_active := False\<rparr>) 1 (guest_empty\<lparr>isLoggedIn := True\<rparr>)) = []"
  using addToCart_unavailable_no_change [of mala 21 srv_ok guest_empty]
    addToCart_unavailable_no_change [of "mala\<lparr>is_active := False\<rparr>" 1 srv_ok "guest_empty\<lparr>isLoggedIn := True\<rparr>"]
  by (simp add: mala_def guest_empty_def)

section \<open>API client: refresh and retry on 401\<close>

lemma retry_attach_token [simp]: "retry (attach_token b cfg) = retry cfg"
  by (simp add: attach_token_def)

text \<open>A request that carries the \<open>_retry\<close> mark settles with the first answer it gets.\<close>

lemma client_retried:
  "retry cfg \<Longrightarrow> client cfg rs rfs b =
     (case rs of [] \<Rightarrow> Inl NoResponse | Success body # _ \<Rightarrow> Inr body | Failure err # _ \<Rightarrow> Inl err,
      tl rs, rfs, send (Request (attach_token b cfg)) b)"
  by (cases rs; simp split: reply.splits)

lemma client_sends_bounded:
  assumes "\<not> retry cfg"
  shows "length (filter is_refresh (sent_by b (client cfg rs rfs b))) \<le> 1 \<and>
         length (filter (\<lambda>r. \<not> is_refresh r) (sent_by b (client cfg rs rfs b))) \<le> 2"
proof (cases rs)
  case Nil
  then show ?thesis by (simp add: sent_by_def browser_of_def send_def is_refresh_def)
next
  case (Cons r rs')
  show ?thesis
  proof (cases r)
    case (Success body)
    with Cons show ?thesis by (simp add: sent_by_def browser_of_def send_def is_refresh_def)
  next
    case (Failure err)
    with Cons assms show ?thesis
      by (auto simp: sent_by_def browser_of_def send_def is_refresh_def Let_def client_retried
            give_up_def store_tokens_def split: list.splits refresh_reply.splits)
  qed
qed

lemma client_refresh_failed:
  "\<not> retry cfg \<Longrightarrow>
     client cfg (Failure (Status 401) # rs) (RefreshFailed e # rfs) b =
       (Inl e, rs, rfs,
        give_up (send (RefreshPost (refresh_token b)) (send (Request (attach_token b cfg)) b)))"
  by (simp add: Let_def send_def)

lemma client_retry_settles:
  "\<not> retry cfg \<Longrightarrow>
     client cfg (Failure (Status 401) # r2 # rs) (Refreshed at nrt # rfs) b =
       (let b2 = store_tokens at nrt
                   (send (RefreshPost (refresh_token b)) (send (Request (attach_token b cfg)) b));
            again = (attach_token b cfg)\<lparr>retry := True, authorization := Some (''Bearer '' @ at)\<rparr>
        in (reply_outcome r2, rs, rfs, send (Request (attach_token b2 again)) b2))"
  by (simp add: Let_def send_def client_retried reply_outcome_def split: reply.splits)

text \<open>
  C6. The claim: after a 401 the client refreshes at most once and retries at most once,
  and when the retried request or the refresh fails it gives up by clearing the tokens
  and redirecting to the login page. In the web client a failed retry is handed to the
  caller as it is: the counterexample answers 401 to the request and to its retry, with
  a successful refresh in between, and the refreshed access token and the old refresh
  token are still stored and the page has not moved.
\<close>

theorem client_retry_failure_keeps_tokens_counterexample:
  "outcome_of (client get_cart [Failure (Status 401), Failure (Status 401)]
       [Refreshed ''a2'' None] browser0) = Inl (Status 401) \<and>
   access_token (browser_of (client get_cart [Failure (Status 401), Failure (Status 401)]
       [Refreshed ''a2'' None] browser0)) = Some ''a2'' \<and>
   refresh_token (browser_of (client get_cart [Failure (Status 401), Failure (Status 401)]
       [Refreshed ''a2'' None] browser0)) = Some ''r1'' \<and>
   location_href (browser_of (client get_cart [Failure (Status 401), Failure (Status 401)]
       [Refreshed ''a2'' None] browser0)) = ''/cart''"
  by (simp add: outcome_of_def browser_of_def get_cart_def browser0_def Let_def attach_token_def
        send_def store_tokens_def)

text \<open>
  C6 as amended, for the web client. A request that does not yet carry the \<open>_retry\<close>
  mark (no caller sets it) leads to at most one refresh post and at most two sendings of
  the request, whatever the server answers. When the refresh fails, both tokens are
  removed, the page is sent to \<open>/login\<close> and the refresh error is the outcome. When the
  refresh succeeds, the new tokens are stored and the request is sent once more; the
  answer to that retry, success or failure, is the outcome, with the stored tokens and
  the page left as they are.
\<close>

theorem client_one_refresh_one_retry:
  assumes "\<not> retry cfg"
  shows "length (filter is_refresh (sent_by b (client cfg rs rfs b))) \<le> 1 \<and>
         length (filter (\<lambda>r. \<not> is_refresh r) (sent_by b (client cfg rs rfs b))) \<le> 2 \<and>
         client cfg (Failure (Status 401) # rs) (RefreshFailed e # rfs) b =
           (Inl e, rs, rfs,
            give_up (send (RefreshPost (refresh_token b)) (send (Request (attach_token b cfg)) b))) \<and>
         client cfg (Failure (Status 401) # r2 # rs) (Refreshed at nrt # rfs) b =
           (let b2 = store_tokens at nrt
                       (send (RefreshPost (refresh_token b)) (send (Request (attach_token b cfg)) b));
                again = (attach_token b cfg)\<lparr>retry := True, authorization := Some (''Bearer '' @ at)\<rparr>
            in (reply_outcome r2, rs, rfs, send (Request (attach_token b2 again)) b2)) \<and>
         access_token (browser_of
           (client cfg (Failure (Status 401) # r2 # rs) (Refreshed at nrt # rfs) b)) = Some at \<and>
         location_href (browser_of
           (client cfg (Failure (Status 401) # r2 # rs) (Refreshed at nrt # rfs) b)) = location_href b"
proof -
  note settles = client_retry_settles [OF assms, of r2 rs at nrt rfs b]
  have tok: "access_token (browser_of
           (client cfg (Failure (Status 401) # r2 # rs) (Refreshed at nrt # rfs) b)) = Some at"
    unfolding settles by (simp add: browser_of_def Let_def send_def store_tokens_def)
  have loc: "location_href (browser_of
           (client cfg (Failure (Status 401) # r2 # rs) (Refreshed at nrt # rfs) b)) = location_href b"
    unfolding settles by (simp add: browser_of_def Let_def send_def store_tokens_def)
  from client_sends_bounded [OF assms, of b rs rfs] client_refresh_failed [OF assms, of rs e rfs b]
    settles tok loc
  show ?thesis by blast
qed

theorem client_one_refresh_one_retry_witness:
  "sent_by browser0 (client get_cart [Failure (Status 401), Failure (Status 401), Success ''late'']
       [Refreshed ''a2'' None, Refreshed ''a3'' None] browser0) =
     [Request (get_cart\<lparr>authorization := Some ''Bearer a1''\<rparr>), RefreshPost (Some ''r1''),
      Request (get_cart\<lparr>authorization := Some ''Bearer a2'', retry := True\<rparr>)] \<and>
   length (filter is_refresh (sent_by browser0
       (client get_cart [Failure (Status 401), Failure (Status 401), Success ''late'']
          [Refreshed ''a2'' None, Refreshed ''a3'' None] browser0))) \<le> 1 \<and>
   client get_cart [Failure (Status 401), Success ''cart''] [RefreshFailed (Status 403)] browser0 =
     (Inl (Status 403), [Success ''cart''], [],
      browser0\<lparr>access_token := None, refresh_token := None, location_href := ''/login'',
        network := [Request (get_cart\<lparr>authorization := Some ''Bearer a1''\<rparr>),
                    RefreshPost (Some ''r1'')]\<rparr>) \<and>
   outcome_of (client get_cart [Failure (Status 401), Failure (Status 500)]
       [Refreshed ''a2'' (Some ''r2'')] browser0) = Inl (Status 500) \<and>
   access_token (browser_of (client get_cart [Failure (Status 401), Failure (Status 500)]
       [Refreshed ''a2'' (Some ''r2'')] browser0)) = Some ''a2''"
proof -
  have n: "\<not> retry get_cart"
    by (simp add: get_cart_def)
  have s: "sent_by browser0 (client get_cart [Failure (Status 401), Failure (Status 401), Success ''late'']
       [Refreshed ''a2'' None, Refreshed ''a3'' None] browser0) =
     [Request (get_cart\<lparr>authorization := Some ''Bearer a1''\<rparr>), RefreshPost (Some ''r1''),
      Request (get_cart\<lparr>authorization := Some ''Bearer a2'', retry := True\<rparr>)]"
    by (simp add: sent_by_def browser_of_def get_cart_def browser0_def Let_def attach_token_def
          send_def store_tokens_def)
  show ?thesis
    using s
      client_one_refresh_one_retry [OF n, of browser0
        "[Failure (Status 401), Failure (Status 401), Success ''late'']"
        "[Refreshed ''a2'' None, Refreshed ''a3'' None]"]
      client_one_refresh_one_retry [OF n, of browser0 "[Success ''cart'']" "[]" "Status 403"]
      client_one_refresh_one_retry [OF n, of browser0 "[]" "[]" _ "Failure (Status 500)" "''a2''" "Some ''r2''"]
    by (simp add: outcome_of_def browser_of_def reply_outcome_def Let_def give_up_def send_def
          browser0_def get_cart_def attach_token_def)
qed

text \<open>
  The mobile client has no such mark. With a refresh token stored, \<open>n\<close> answers 401 in a
  row, each followed by a successful refresh, make \<open>n\<close> refresh calls for the one
  original request.
\<close>

lemma dio_fetch_refreshes_after_every_401:
  "stored_refresh_token d \<noteq> None \<Longrightarrow>
   length (filter is_refresh_call (traffic (browser_of
     (dio_fetch options (replicate n (Failure (Status 401)) @ [Success body])
        (replicate n (Refreshed at (Some rt))) d)))) =
   length (filter is_refresh_call (traffic d)) + n"
proof (induction n arbitrary: d options)
  case 0
  then show ?case by (simp add: browser_of_def is_refresh_call_def)
next
  case (Suc n)
  then show ?case
    by (auto simp: Let_def refreshToken_def is_refresh_call_def split: option.splits)
qed

section \<open>Auth: logout\<close>

text \<open>
  C9. Whatever the server answers to the logout request (the scripts \<open>rs\<close> and \<open>rfs\<close> are
  arbitrary, so the post may resolve, reject, or fail after a token refresh), \<open>logout\<close>
  ends with both tokens removed from local storage, the logged-in flag false and the
  query cache empty.
\<close>

theorem logout_clears_tokens_and_cache:
  "access_token (logout rs rfs a) = None \<and> refresh_token (logout rs rfs a) = None \<and>
   \<not> isLoggedIn_state (logout rs rfs a) \<and> query_cache (logout rs rfs a) = []"
  by (simp add: logout_def Let_def split: prod.splits sum.splits)

theorem logout_clears_tokens_and_cache_witness:
  "access_token (logout [Failure (Status 500)] [] auth0) = None \<and>
   refresh_token (logout [Failure (Status 500)] [] auth0) = None \<and>
   isLoggedIn_state (logout [Failure (Status 500)] [] auth0) = False \<and>
   query_cache (logout [Failure (Status 500)] [] auth0) = [] \<and>
   network (logout [Failure (Status 500)] [] auth0) =
     [Request \<lparr>http_method = ''POST'', url = ''/api/v1/auth/logout'',
        authorization = Some ''Bearer a1'', retry = False\<rparr>] \<and>
   access_token (logout [Success ''ok''] [] auth0) = None \<and>
   query_cache (logout [Success ''ok''] [] auth0) = []"
  using logout_clears_tokens_and_cache [of "[Failure (Status 500)]" "[]" auth0]
    logout_clears_tokens_and_cache [of "[Success ''ok'']" "[]" auth0]
  by (simp add: logout_def apiService_logout_def outcome_of_def browser_of_def Let_def send_def
        attach_token_def auth0_def)

section \<open>Checkout: the in-flight latch, verification, dismissal\<close>

lemmas checkout_defs = handleCreateOrder_def after_createOrder_def after_createPayment_def
  after_loadRazorpayScript_def handler_start_def handler_finish_def handler_after_verify_def
  handler_after_clearCart_def payment_failed_def ondismiss_def order_failed_def release_def
  set_phase_def notify_def call_def console_error_def clearCart_finally_def waiting_def

lemma step_keeps_address [simp]: "selectedAddressId (step e s) = selectedAddressId s"
  by (cases e) (auto simp: checkout_defs Let_def split: phase.splits response.splits)

lemma step_latched_flows:
  "orderInFlight s \<Longrightarrow> length (flows (step e s)) = length (flows s)"
  by (cases e) (auto simp: checkout_defs Let_def split: phase.splits response.splits)

lemma step_latched_orders:
  "orderInFlight s \<Longrightarrow> orders_created (step e s) = orders_created s"
  by (cases e)
     (auto simp: checkout_defs orders_created_def is_CreateOrder_def Let_def
        split: phase.splits response.splits)

lemma step_payments_waiting:
  assumes "length (flows s) = 1" and "flows s ! 0 = AwaitCreateOrder" and "orderInFlight s"
  shows "payments_created (step e s) =
           payments_created s + (if order_created_for 0 e then 1 else 0)"
    and "order_created_for 0 e \<Longrightarrow> flows (step e s) ! 0 \<noteq> AwaitCreateOrder"
    and "\<not> order_created_for 0 e \<Longrightarrow>
           flows (step e s) ! 0 = AwaitCreateOrder \<or> \<not> orderInFlight (step e s)"
  using assms
  by (cases e; auto simp: checkout_defs payments_created_def is_CreatePayment_def Let_def
        split: phase.splits response.splits)+

lemma step_payments_later:
  assumes "length (flows s) = 1" and "flows s ! 0 \<noteq> AwaitCreateOrder" and "orderInFlight s"
  shows "payments_created (step e s) = payments_created s"
    and "flows (step e s) ! 0 \<noteq> AwaitCreateOrder"
  using assms
  by (cases e; auto simp: checkout_defs payments_created_def is_CreatePayment_def Let_def
        split: phase.splits response.splits)+

lemma latched_released: "\<not> orderInFlight s \<Longrightarrow> latched es s \<Longrightarrow> es = []"
  by (cases es) simp_all

lemma latched_run_counts:
  assumes "length (flows s) = 1" and "latched es s"
  shows "orders_created (run es s) = orders_created s \<and>
         payments_created (run es s) =
           payments_created s +
             (if flows s ! 0 = AwaitCreateOrder \<and> list_ex (order_created_for 0) es then 1 else 0)"
  using assms
proof (induction es arbitrary: s)
  case Nil
  then show ?case by simp
next
  case (Cons e es)
  from Cons.prems have held: "orderInFlight s" and rest: "latched es (step e s)"
    by simp_all
  have one: "length (flows (step e s)) = 1"
    using Cons.prems(1) held by (simp add: step_latched_flows)
  note IH = Cons.IH [OF one rest]
  have orders: "orders_created (run es (step e s)) = orders_created s"
    using IH held by (simp add: step_latched_orders)
  show ?case
  proof (cases "flows s ! 0 = AwaitCreateOrder")
    case False
    from step_payments_later [OF Cons.prems(1) False held, of e] IH orders False
    show ?thesis by simp
  next
    case True
    note w = step_payments_waiting [OF Cons.prems(1) True held, of e]
    show ?thesis
    proof (cases "order_created_for 0 e")
      case created: True
      with w(1,2) IH orders True show ?thesis by simp
    next
      case not_created: False
      from w(3) [OF not_created] show ?thesis
      proof
        assume "flows (step e s) ! 0 = AwaitCreateOrder"
        with w(1) IH orders True not_created show ?thesis by simp
      next
        assume "\<not> orderInFlight (step e s)"
        then have "es = []" using rest by (rule latched_released)
        with w(1) orders True not_created show ?thesis by simp
      qed
    qed
  qed
qed

lemma first_click:
  assumes "truthy (selectedAddressId s)" and "\<not> orderInFlight s"
  shows "step (PlaceOrder False) s =
           s\<lparr>api_calls := api_calls s @ [CreateOrder (the (selectedAddressId s))],
             processing := True, orderInFlight := True, flows := flows s @ [AwaitCreateOrder]\<rparr>"
  using assms by (simp add: handleCreateOrder_def call_def)

lemma click_while_latched:
  "truthy (selectedAddressId s) \<Longrightarrow> orderInFlight s \<Longrightarrow> step (PlaceOrder seen) s = s"
  by (simp add: handleCreateOrder_def)

text \<open>
  C2. A first click on an idle page with an address selected sends \<open>createOrder\<close> and
  sets the latch. For every list of events that follows, clicks included, as long as
  the latch is set when each of them arrives (so up to and including the event that
  releases it: success, failure or dismissal), the page has sent exactly one
  \<open>createOrder\<close>; it has sent exactly one \<open>createPayment\<close> once the order's creation has
  been answered with an order, and none before that or when the creation is rejected;
  and while the latch is still set a further click returns the state as it is, whatever
  value of \<open>processing\<close> its closure holds.
\<close>

theorem one_order_one_payment_while_latched:
  assumes "truthy (selectedAddressId s)" and "\<not> orderInFlight s" and "flows s = []"
    and "latched es (step (PlaceOrder False) s)"
  shows "orders_created (run (PlaceOrder False # es) s) = orders_created s + 1 \<and>
         payments_created (run (PlaceOrder False # es) s) =
           payments_created s + (if list_ex (order_created_for 0) es then 1 else 0) \<and>
         (orderInFlight (run (PlaceOrder False # es) s) \<longrightarrow>
            step (PlaceOrder seen) (run (PlaceOrder False # es) s) = run (PlaceOrder False # es) s)"
proof -
  let ?s1 = "step (PlaceOrder False) s"
  have s1: "?s1 = s\<lparr>api_calls := api_calls s @ [CreateOrder (the (selectedAddressId s))],
             processing := True, orderInFlight := True, flows := flows s @ [AwaitCreateOrder]\<rparr>"
    using assms(1,2) by (rule first_click)
  have one: "length (flows ?s1) = 1" and w: "flows ?s1 ! 0 = AwaitCreateOrder"
    and o: "orders_created ?s1 = orders_created s + 1"
    and p: "payments_created ?s1 = payments_created s"
    unfolding s1 using assms(3)
    by (simp_all add: orders_created_def payments_created_def is_CreateOrder_def is_CreatePayment_def)
  have addr: "truthy (selectedAddressId (run es ?s1))"
  proof -
    have "selectedAddressId (run es t) = selectedAddressId t" for t :: "'a Checkout_scheme"
      by (induction es arbitrary: t) simp_all
    then have "selectedAddressId (run es ?s1) = selectedAddressId s"
      by (simp only: step_keeps_address)
    with assms(1) show ?thesis by (simp only:)
  qed
  from latched_run_counts [OF one assms(4)] w o p addr
  show ?thesis by (simp add: handleCreateOrder_def)
qed


lemma finished_ignores:
  "waiting i s = Finished \<Longrightarrow> target e = Some i \<Longrightarrow> step e s = s"
  by (cases e) simp_all

lemma finished_ignores_all:
  "waiting i s = Finished \<Longrightarrow> list_all (\<lambda>e. target e = Some i) es \<Longrightarrow> run es s = s"
  by (induction es) (simp_all add: finished_ignores)

lemma handler_rejected:
  assumes "i < length (flows s)" and "flows s ! i = WidgetOpen orderRes paymentRes"
  shows "run [PaymentSucceeded i response, VerifySettled i (Rejected d)] s =
     s\<lparr>toasts := toasts s @
         [ToastError (Text ''Payment verification failed. Contact support if amount was deducted.'')],
       api_calls := api_calls s @ [VerifyPayment response],
       console := console s @ [''Payment verification failed:''],
       processing := False, orderInFlight := False, flows := (flows s)[i := Finished]\<rparr>"
  using assms by (simp add: checkout_defs)

lemma handler_resolved:
  assumes "i < length (flows s)" and "flows s ! i = WidgetOpen orderRes paymentRes"
  shows "api_calls (run [PaymentSucceeded i response, VerifySettled i (Resolved ()),
                         ClearCartSettled i r] s) =
           api_calls s @ VerifyPayment response # (if isLoggedIn s then [ClearCart] else [])"
    and "items (run [PaymentSucceeded i response, VerifySettled i (Resolved ()),
                     ClearCartSettled i r] s) = []"
    and "guest_cart (run [PaymentSucceeded i response, VerifySettled i (Resolved ()),
                     ClearCartSettled i r] s) = None"
    and "orderSuccess (run [PaymentSucceeded i response, VerifySettled i (Resolved ()),
                     ClearCartSettled i r] s) = Some (order_number orderRes, total orderRes)"
  using assms by (simp_all add: checkout_defs Let_def split: response.splits)

text \<open>
  C3. Take an invocation whose widget is open. When the widget reports a payment,
  \<open>handler\<close> sends \<open>verifyPayment\<close> and, while the answer is awaited, the cart and the
  success popup are as before. If the verification is rejected, the cart, the stored
  guest cart and the popup stay as they were, no further request was sent, and no later
  event of this invocation changes anything. If it resolves, the requests sent are
  \<open>verifyPayment\<close> and only then \<open>clearCart\<close> (for a logged-in user; a guest's cart is
  cleared locally), after which the cart is empty and the popup shows the order.
\<close>

theorem verification_before_clearing:
  assumes "i < length (flows s)" and "flows s ! i = WidgetOpen orderRes paymentRes"
  shows "api_calls (step (PaymentSucceeded i response) s) = api_calls s @ [VerifyPayment response] \<and>
         items (step (PaymentSucceeded i response) s) = items s \<and>
         orderSuccess (step (PaymentSucceeded i response) s) = orderSuccess s \<and>
         api_calls (run [PaymentSucceeded i response, VerifySettled i (Rejected d)] s) =
           api_calls s @ [VerifyPayment response] \<and>
         items (run [PaymentSucceeded i response, VerifySettled i (Rejected d)] s) = items s \<and>
         guest_cart (run [PaymentSucceeded i response, VerifySettled i (Rejected d)] s) = guest_cart s \<and>
         orderSuccess (run [PaymentSucceeded i response, VerifySettled i (Rejected d)] s) =
           orderSuccess s \<and>
         (list_all (\<lambda>e. target e = Some i) es \<longrightarrow>
            run (PaymentSucceeded i response # VerifySettled i (Rejected d) # es) s =
            run [PaymentSucceeded i response, VerifySettled i (Rejected d)] s) \<and>
         api_calls (run [PaymentSucceeded i response, VerifySettled i (Resolved ()),
                         ClearCartSettled i r] s) =
           api_calls s @ VerifyPayment response # (if isLoggedIn s then [ClearCart] else []) \<and>
         items (run [PaymentSucceeded i response, VerifySettled i (Resolved ()),
                     ClearCartSettled i r] s) = [] \<and>
         orderSuccess (run [PaymentSucceeded i response, VerifySettled i (Resolved ()),
                     ClearCartSettled i r] s) = Some (order_number orderRes, total orderRes)"
proof -
  let ?rej = "run [PaymentSucceeded i response, VerifySettled i (Rejected d)] s"
  note rej = handler_rejected [OF assms, of response d]
  have fin: "waiting i ?rej = Finished"
    unfolding rej using assms(1) by (simp add: waiting_def)
  have later: "list_all (\<lambda>e. target e = Some i) es \<longrightarrow>
      run (PaymentSucceeded i response # VerifySettled i (Rejected d) # es) s = ?rej"
  proof
    assume "list_all (\<lambda>e. target e = Some i) es"
    with fin have "run es ?rej = ?rej" by (rule finished_ignores_all)
    then show "run (PaymentSucceeded i response # VerifySettled i (Rejected d) # es) s = ?rej"
      by simp
  qed
  have start: "api_calls (step (PaymentSucceeded i response) s) = api_calls s @ [VerifyPayment response]"
    "items (step (PaymentSucceeded i response) s) = items s"
    "orderSuccess (step (PaymentSucceeded i response) s) = orderSuccess s"
    using assms by (simp_all add: checkout_defs)
  have rejected: "api_calls ?rej = api_calls s @ [VerifyPayment response]"
    "items ?rej = items s" "guest_cart ?rej = guest_cart s" "orderSuccess ?rej = orderSuccess s"
    unfolding rej by simp_all
  from start rejected later handler_resolved(1,2,4) [OF assms, of response r]
  show ?thesis by blast
qed

text \<open>
  C4. With the widget open, \<open>ondismiss\<close> and the \<open>payment.failed\<close> listener reset
  \<open>processing\<close> and the latch and show a toast; nothing else changes: the cart items are
  the same (so a non-empty cart stays non-empty) and no request is sent, in particular
  none that clears the cart or touches the order. On the account page
  \<open>handleContinuePayment\<close> for that order, with no payment under way there, sends a new
  \<open>createPayment\<close> for the order's id.
\<close>

theorem dismissal_and_failure_keep_cart:
  assumes "i < length (flows s)" and "flows s ! i = WidgetOpen orderRes paymentRes"
    and "\<not> paymentInFlight a"
  shows "step (ModalDismissed i) s =
           s\<lparr>toasts := toasts s @ [ToastInfo
                 (Text ''Payment cancelled. Your order is saved - you can retry from your account.'')],
             processing := False, orderInFlight := False, flows := (flows s)[i := Finished]\<rparr> \<and>
         step (PaymentFailed i description) s =
           s\<lparr>toasts := toasts s @ [ToastError (Text (or_else description ''Payment failed''))],
             processing := False, orderInFlight := False\<rparr> \<and>
         items (step (ModalDismissed i) s) = items s \<and>
         api_calls (step (ModalDismissed i) s) = api_calls s \<and>
         items (step (PaymentFailed i description) s) = items s \<and>
         api_calls (step (PaymentFailed i description) s) = api_calls s \<and>
         requests (handleContinuePayment orderRes a) = requests a @ [CreatePayment (id_order orderRes)]"
  using assms by (simp add: checkout_defs handleContinuePayment_def)


lemma at_widget_reached: "run to_widget checkout0 = at_widget"
  by (simp add: to_widget_def checkout0_def at_widget_def order1_def checkout_defs)

theorem one_order_one_payment_while_latched_witness:
  "orders_created (run (PlaceOrder False # rapid_clicks) checkout0) = 1 \<and>
   payments_created (run (PlaceOrder False # rapid_clicks) checkout0) = 1 \<and>
   api_calls (run (PlaceOrder False # rapid_clicks) checkout0) =
     [CreateOrder ''addr-1'', CreatePayment ''o-1''] \<and>
   orders_created (run [PlaceOrder False, PlaceOrder False, PlaceOrder True] checkout0) = 1 \<and>
   payments_created (run [PlaceOrder False, PlaceOrder False, PlaceOrder True] checkout0) = 0 \<and>
   step (PlaceOrder False) (run [PlaceOrder False, PlaceOrder False, PlaceOrder True] checkout0) =
     run [PlaceOrder False, PlaceOrder False, PlaceOrder True] checkout0"
proof -
  have a: "truthy (selectedAddressId checkout0)" "\<not> orderInFlight checkout0" "flows checkout0 = []"
    by (simp_all add: checkout0_def)
  have l1: "latched rapid_clicks (step (PlaceOrder False) checkout0)"
    by (simp add: rapid_clicks_def checkout0_def checkout_defs)
  have l2: "latched [PlaceOrder False, PlaceOrder True] (step (PlaceOrder False) checkout0)"
    by (simp add: checkout0_def checkout_defs)
  have c: "api_calls (run (PlaceOrder False # rapid_clicks) checkout0) =
      [CreateOrder ''addr-1'', CreatePayment ''o-1'']"
    by (simp add: rapid_clicks_def checkout0_def order1_def checkout_defs)
  have held: "orderInFlight (run [PlaceOrder False, PlaceOrder False, PlaceOrder True] checkout0)"
    by (simp add: checkout0_def checkout_defs)
  from one_order_one_payment_while_latched [OF a l1, of False]
    one_order_one_payment_while_latched [OF a l2, of False] c held
  show ?thesis
    by (simp add: rapid_clicks_def orders_created_def payments_created_def checkout0_def)
qed

theorem verification_before_clearing_witness:
  "api_calls (run [PaymentSucceeded 0 paid1, VerifySettled 0 (Rejected None)] at_widget) =
     [CreateOrder ''addr-1'', CreatePayment ''o-1'', VerifyPayment paid1] \<and>
   items (run [PaymentSucceeded 0 paid1, VerifySettled 0 (Rejected None)] at_widget) = [server_item] \<and>
   orderSuccess (run [PaymentSucceeded 0 paid1, VerifySettled 0 (Rejected None)] at_widget) = None \<and>
   run [PaymentSucceeded 0 paid1, VerifySettled 0 (Rejected None), ClearCartSettled 0 (Resolved ())]
       at_widget =
     run [PaymentSucceeded 0 paid1, VerifySettled 0 (Rejected None)] at_widget \<and>
   api_calls (run [PaymentSucceeded 0 paid1, VerifySettled 0 (Resolved ()),
                   ClearCartSettled 0 (Resolved ())] at_widget) =
     [CreateOrder ''addr-1'', CreatePayment ''o-1'', VerifyPayment paid1, ClearCart] \<and>
   items (run [PaymentSucceeded 0 paid1, VerifySettled 0 (Resolved ()),
               ClearCartSettled 0 (Resolved ())] at_widget) = [] \<and>
   orderSuccess (run [PaymentSucceeded 0 paid1, VerifySettled 0 (Resolved ()),
               ClearCartSettled 0 (Resolved ())] at_widget) = Some (''KH-1001'', 998)"
proof -
  have a: "0 < length (flows at_widget)" "flows at_widget ! 0 = WidgetOpen order1 payment1"
    by (simp_all add: at_widget_def)
  from verification_before_clearing [OF a, of paid1 None "[ClearCartSettled 0 (Resolved ())]" "Resolved ()"]
  show ?thesis
    by (simp add: at_widget_def checkout0_def order1_def)
qed

theorem dismissal_and_failure_keep_cart_witness:
  "step (ModalDismissed 0) at_widget =
     at_widget\<lparr>toasts := [ToastInfo
         (Text ''Payment cancelled. Your order is saved - you can retry from your account.'')],
       processing := False, orderInFlight := False, flows := [Finished]\<rparr> \<and>
   step (PaymentFailed 0 None) at_widget =
     at_widget\<lparr>toasts := [ToastError (Text ''Payment failed'')],
       processing := False, orderInFlight := False\<rparr> \<and>
   items (step (ModalDismissed 0) at_widget) = [server_item] \<and>
   api_calls (step (PaymentFailed 0 None) at_widget) =
     [CreateOrder ''addr-1'', CreatePayment ''o-1''] \<and>
   requests (handleContinuePayment order1 account0) = [CreatePayment ''o-1'']"
proof -
  have a: "0 < length (flows at_widget)" "flows at_widget ! 0 = WidgetOpen order1 payment1"
    "\<not> paymentInFlight account0"
    by (simp_all add: at_widget_def account0_def)
  from dismissal_and_failure_keep_cart [OF a, of None]
  show ?thesis
    by (simp add: at_widget_def checkout0_def order1_def account0_def)
qed

text \<open>
  The mobile screen. \<open>_placeOrder\<close> has no guard of its own, and the stepper's continue
  button calls it without looking at \<open>_isProcessing\<close>; but no code ever assigns
  \<open>_selectedAddressId\<close>, so from the initial screen every tap sequence ends with no
  order requested at all: \<open>_placeOrder\<close> always stops at its address check.
\<close>

lemma mobile_taps_request_no_order:
  "selectedAddressId_screen (taps ts screen0) = None \<and> orders_requested (taps ts screen0) = []"
proof -
  have "selectedAddressId_screen w = None \<Longrightarrow> orders_requested w = [] \<Longrightarrow>
        selectedAddressId_screen (taps ts w) = None \<and> orders_requested (taps ts w) = []" for w
  proof (induction ts arbitrary: w)
    case Nil
    then show ?case by simp
  next
    case (Cons t ts)
    have "selectedAddressId_screen (on_tap t w) = None \<and> orders_requested (on_tap t w) = []"
      using Cons.prems by (cases t) (simp_all add: placeOrder_def)
    then show ?case using Cons.IH by simp
  qed
  then show ?thesis by (simp add: screen0_def)
qed

text \<open>Were an address selected, two taps on the stepper's button would request two orders.\<close>

lemma mobile_stepper_has_no_latch:
  "orders_requested (taps [StepContinue, StepContinue]
     (screen0\<lparr>currentStep := 2, selectedAddressId_screen := Some ''addr-1''\<rparr>)) =
   [''addr-1'', ''addr-1'']"
  by (simp add: screen0_def placeOrder_def)

end
